theory Spec2Isabelle
  imports Main
begin

section \<open>Python strings\<close>

text \<open>
  A Python \<open>str\<close> is a sequence of code points.  The embedding uses HOL's \<open>string\<close>
  (a list of 8-bit characters), so a character stands for the code point of the same
  value, 0 to 255 (ASCII and Latin-1).  The character classes below are the ones Python
  uses on that range: \<open>\s\<close> and \<open>str.strip\<close>/\<open>str.split\<close> share one notion of white
  space, \<open>\w\<close> is "alphanumeric or underscore", \<open>[A-Z]\<close> and \<open>[a-z]\<close> are ASCII ranges.
\<close>

definition is_AZ :: "char \<Rightarrow> bool" where
  "is_AZ c = (65 \<le> (of_char c :: nat) \<and> (of_char c :: nat) \<le> 90)"

definition is_az :: "char \<Rightarrow> bool" where
  "is_az c = (97 \<le> (of_char c :: nat) \<and> (of_char c :: nat) \<le> 122)"

definition is_space :: "char \<Rightarrow> bool" where
  "is_space c = (let n = (of_char c :: nat) in
     (9 \<le> n \<and> n \<le> 13) \<or> (28 \<le> n \<and> n \<le> 32) \<or> n = 133 \<or> n = 160)"

definition is_word :: "char \<Rightarrow> bool" where
  "is_word c = (let n = (of_char c :: nat) in
     (48 \<le> n \<and> n \<le> 57) \<or> (65 \<le> n \<and> n \<le> 90) \<or> n = 95 \<or> (97 \<le> n \<and> n \<le> 122)
     \<or> n = 170 \<or> n = 178 \<or> n = 179 \<or> n = 181 \<or> n = 185 \<or> n = 186
     \<or> (188 \<le> n \<and> n \<le> 190) \<or> (192 \<le> n \<and> n \<le> 214) \<or> (216 \<le> n \<and> n \<le> 246)
     \<or> 248 \<le> n)"

definition is_cased :: "char \<Rightarrow> bool" where
  "is_cased c = (let n = (of_char c :: nat) in
     (65 \<le> n \<and> n \<le> 90) \<or> (97 \<le> n \<and> n \<le> 122) \<or> n = 170 \<or> n = 181 \<or> n = 186
     \<or> (192 \<le> n \<and> n \<le> 214) \<or> (216 \<le> n \<and> n \<le> 246) \<or> 248 \<le> n)"

definition py_lower_char :: "char \<Rightarrow> char" where
  "py_lower_char c = (let n = (of_char c :: nat) in
     if (65 \<le> n \<and> n \<le> 90) \<or> (192 \<le> n \<and> n \<le> 214) \<or> (216 \<le> n \<and> n \<le> 222)
     then char_of (n + 32) else c)"

text \<open>
  Title-casing one character gives a string: the sharp s (code point 223) becomes the
  two letters "Ss".  Two lower-case letters, code points 181 and 255, have a title-case
  form that is not an 8-bit code point (U+039C and U+0178); the embedding cannot write
  Python's result for them.  \<open>title_defined\<close> below says that neither stands where
  \<open>str.title\<close> title-cases, and \<open>py_title\<close> is Python's result exactly on such texts;
  every general statement about \<open>py_title\<close> assumes it.
\<close>

definition py_title_char :: "char \<Rightarrow> string" where
  "py_title_char c = (let n = (of_char c :: nat) in
     if n = 223 then ''Ss''
     else if (97 \<le> n \<and> n \<le> 122) \<or> (224 \<le> n \<and> n \<le> 246) \<or> (248 \<le> n \<and> n \<le> 254)
     then [char_of (n - 32)] else [c])"

definition py_lower :: "string \<Rightarrow> string" where
  "py_lower s = map py_lower_char s"

text \<open>\<open>str.title\<close>: a character after an uncased one is title-cased, any other lowered.\<close>

fun title_from :: "bool \<Rightarrow> string \<Rightarrow> string" where
  "title_from previous_is_cased [] = []"
| "title_from previous_is_cased (c # cs) =
     (if previous_is_cased then [py_lower_char c] else py_title_char c)
       @ title_from (is_cased c) cs"

definition py_title :: "string \<Rightarrow> string" where
  "py_title s = title_from False s"



definition startswith :: "string \<Rightarrow> string \<Rightarrow> bool" where
  "startswith s p = (take (length p) s = p)"

text \<open>\<open>sub in s\<close> on strings.\<close>

fun py_contains :: "string \<Rightarrow> string \<Rightarrow> bool" where
  "py_contains sub [] = (sub = [])"
| "py_contains sub (c # cs) = (startswith (c # cs) sub \<or> py_contains sub cs)"

definition py_strip :: "string \<Rightarrow> string" where
  "py_strip s = rev (dropWhile is_space (rev (dropWhile is_space s)))"

text \<open>
  \<open>s.split(sep)\<close> for a non-empty separator (every separator in the program is a
  non-empty literal): the pieces between the non-overlapping occurrences of \<open>sep\<close>,
  found from the left.  \<open>acc\<close> is the piece being read.
\<close>

function py_split_acc :: "string \<Rightarrow> string \<Rightarrow> string \<Rightarrow> string list" where
  "py_split_acc sep acc [] = [acc]"
| "py_split_acc sep acc (c # cs) =
     (if sep \<noteq> [] \<and> startswith (c # cs) sep
      then acc # py_split_acc sep [] (drop (length sep) (c # cs))
      else py_split_acc sep (acc @ [c]) cs)"
  by pat_completeness auto
termination
  by (relation "measure (\<lambda>(sep, acc, s). length s)") auto

definition py_split :: "string \<Rightarrow> string \<Rightarrow> string list" where
  "py_split sep s = py_split_acc sep [] s"

text \<open>\<open>s.split()\<close>: the maximal runs of characters that are not white space.\<close>

fun split_ws_acc :: "string \<Rightarrow> string \<Rightarrow> string list" where
  "split_ws_acc acc [] = (if acc = [] then [] else [acc])"
| "split_ws_acc acc (c # cs) =
     (if is_space c
      then (if acc = [] then split_ws_acc [] cs else acc # split_ws_acc [] cs)
      else split_ws_acc (acc @ [c]) cs)"

definition py_split_ws :: "string \<Rightarrow> string list" where
  "py_split_ws s = split_ws_acc [] s"

text \<open>\<open>s.replace(old, new)\<close> where both are one character long, as in the program.\<close>

definition py_replace_char :: "char \<Rightarrow> char \<Rightarrow> string \<Rightarrow> string" where
  "py_replace_char old new s = map (\<lambda>c. if c = old then new else c) s"

section \<open>Regular expressions\<close>

text \<open>
  A backtracking matcher maps the text at the current position to the list of texts
  that can remain after it, in the order in which the engine tries them; the first
  element is what a successful match uses when nothing after it fails.  A greedy
  repetition tries one more round before it tries to stop.
\<close>

type_synonym matcher = "string \<Rightarrow> string list"

definition re_lit :: "string \<Rightarrow> matcher" where
  "re_lit w s = (if startswith s w then [drop (length w) s] else [])"

definition re_alt :: "matcher list \<Rightarrow> matcher" where
  "re_alt ms s = concat (map (\<lambda>m. m s) ms)"

definition re_seq :: "matcher \<Rightarrow> matcher \<Rightarrow> matcher" where
  "re_seq m1 m2 s = concat (map m2 (m1 s))"

fun re_class :: "(char \<Rightarrow> bool) \<Rightarrow> matcher" where
  "re_class P [] = []"
| "re_class P (c # cs) = (if P c then [cs] else [])"

fun re_class_plus :: "(char \<Rightarrow> bool) \<Rightarrow> matcher" where
  "re_class_plus P [] = []"
| "re_class_plus P (c # cs) = (if P c then re_class_plus P cs @ [cs] else [])"

text \<open>
  \<open>(?:m)+\<close>, greedy.  A round that consumed nothing is not repeated, as in the engine;
  the rounds used here always consume a character.
\<close>

function re_plus :: "matcher \<Rightarrow> matcher" where
  "re_plus m s =
     concat (map (\<lambda>r. (if length r < length s then re_plus m r else []) @ [r]) (m s))"
  by pat_completeness auto
termination
  by (relation "measure (\<lambda>(m, s). length s)") auto

declare re_plus.simps [simp del]

text \<open>\<open>[A-Z][a-z]+\<close> and the name shape \<open>[A-Z][a-z]+(?:\s+[A-Z][a-z]+)+\<close>.\<close>

definition name_word :: matcher where
  "name_word = re_seq (re_class is_AZ) (re_class_plus is_az)"

definition name_re :: matcher where
  "name_re = re_seq name_word (re_plus (re_seq (re_class_plus is_space) name_word))"

text \<open>The text of a group that started at \<open>s\<close> and ended where \<open>r\<close> remains.\<close>

definition group_text :: "string \<Rightarrow> string \<Rightarrow> string" where
  "group_text s r = take (length s - length r) s"

text \<open>
  The three patterns of \<open>_extract_individual_name\<close>, each as the list of values of
  \<open>group(1)\<close> over the ways the pattern matches at the start of \<open>s\<close>, in the engine's
  order.
\<close>

definition pattern1 :: "string \<Rightarrow> string list" where
  "pattern1 s =
     [group_text r1 r2.
        r1 \<leftarrow> re_seq (re_alt (map re_lit [''appoints'', ''names'', ''hires'', ''welcomes'']))
                    (re_class_plus is_space) s,
        r2 \<leftarrow> name_re r1]"

definition pattern2 :: "string \<Rightarrow> string list" where
  "pattern2 s =
     [group_text s r2.
        r2 \<leftarrow> name_re s,
        r3 \<leftarrow> re_seq (re_class_plus is_space)
                    (re_alt (map re_lit [''as'', ''named'', ''appointed'', ''joins''])) r2]"

definition pattern3 :: "string \<Rightarrow> string list" where
  "pattern3 s =
     [group_text r1 r2.
        r1 \<leftarrow> re_seq (re_lit ''CFO'') (re_class_plus is_space) s,
        r2 \<leftarrow> name_re r1]"

text \<open>\<open>re.search\<close>: the first match at the leftmost position that has one.\<close>

fun re_search :: "(string \<Rightarrow> string list) \<Rightarrow> string \<Rightarrow> string option" where
  "re_search p [] = (case p [] of [] \<Rightarrow> None | g # _ \<Rightarrow> Some g)"
| "re_search p (c # cs) = (case p (c # cs) of [] \<Rightarrow> re_search p cs | g # _ \<Rightarrow> Some g)"

section \<open>Text extraction\<close>

text \<open>The filter on a captured name: at least two words, and not a blocklisted phrase.\<close>

definition name_ok :: "string \<Rightarrow> bool" where
  "name_ok name = (length (py_split_ws name) \<ge> 2
      \<and> name \<notin> set [''Chief Financial'', ''Financial Officer''])"

text \<open>The loop over the patterns of \<open>_extract_individual_name\<close>.\<close>

fun try_patterns :: "(string \<Rightarrow> string list) list \<Rightarrow> string \<Rightarrow> string option" where
  "try_patterns [] text = None"
| "try_patterns (p # ps) text =
     (case re_search p text of
        None \<Rightarrow> try_patterns ps text
      | Some g \<Rightarrow> (let name = py_strip g in
                   if name_ok name then Some name else try_patterns ps text))"

definition extract_individual_name :: "string \<Rightarrow> string \<Rightarrow> string option" where
  "extract_individual_name t s =
     try_patterns [pattern1, pattern2, pattern3] (t @ '' '' @ s)"

definition company_keywords :: "string list" where
  "company_keywords = [''appoints'', ''hires'', ''names'', ''announces'', ''welcomes'']"

text \<open>
  The loop over the keywords of \<open>_extract_company\<close>.  \<open>parts[0]\<close> is the head of the
  split; a split never returns the empty list (\<open>py_split_acc_nonempty\<close> below), so the
  first branch of the case is never taken.
\<close>

fun company_loop :: "string list \<Rightarrow> string \<Rightarrow> string" where
  "company_loop [] t = ''Company in article''"
| "company_loop (keyword # ks) t =
     (if py_contains keyword (py_lower t)
      then (case py_split keyword (py_lower t) of
              [] \<Rightarrow> company_loop ks t
            | p # _ \<Rightarrow> if p \<noteq> [] then py_title (py_strip p) else company_loop ks t)
      else company_loop ks t)"

definition extract_company :: "string \<Rightarrow> string" where
  "extract_company t = company_loop company_keywords t"

text \<open>\<open>_sanitize_filename\<close>: \<open>re.sub(r'[^\w\s-]', '', name).strip().replace(' ', '_')[:50]\<close>.\<close>

definition sanitize_filename :: "string \<Rightarrow> string" where
  "sanitize_filename name =
     take 50 (py_replace_char (CHR '' '') (CHR ''_'')
       (py_strip (filter (\<lambda>c. is_word c \<or> is_space c \<or> c = CHR ''-'') name)))"

section \<open>Dates\<close>

text \<open>
  The first six fields of a \<open>time.struct_time\<close>, as \<open>pub_date[:6]\<close> passes them to the
  \<open>datetime\<close> constructor.
\<close>

record struct_time =
  tm_year :: int
  tm_mon :: int
  tm_mday :: int
  tm_hour :: int
  tm_min :: int
  tm_sec :: int

datatype py_error = ValueError

definition is_leap :: "int \<Rightarrow> bool" where
  "is_leap y = (y mod 4 = 0 \<and> (y mod 400 = 0 \<or> y mod 100 \<noteq> 0))"

definition days_in_month :: "int \<Rightarrow> int \<Rightarrow> int" where
  "days_in_month y m =
     (if m = 2 then (if is_leap y then 29 else 28)
      else if m = 4 \<or> m = 6 \<or> m = 9 \<or> m = 11 then 30 else 31)"

definition days_before_year :: "int \<Rightarrow> int" where
  "days_before_year y = (let p = y - 1 in p * 365 + p div 4 - p div 100 + p div 400)"

definition days_before_month :: "int \<Rightarrow> int \<Rightarrow> int" where
  "days_before_month y m =
     sum_list (map (days_in_month y) [1 .. m - 1])"

text \<open>
  A naive \<open>datetime\<close> is the number of microseconds since the start of day 1 of year 1.
  The constructor raises \<open>ValueError\<close> on a field out of range.
\<close>

definition datetime :: "struct_time \<Rightarrow> py_error + int" where
  "datetime t =
     (if 1 \<le> tm_year t \<and> tm_year t \<le> 9999 \<and> 1 \<le> tm_mon t \<and> tm_mon t \<le> 12
         \<and> 1 \<le> tm_mday t \<and> tm_mday t \<le> days_in_month (tm_year t) (tm_mon t)
         \<and> 0 \<le> tm_hour t \<and> tm_hour t \<le> 23 \<and> 0 \<le> tm_min t \<and> tm_min t \<le> 59
         \<and> 0 \<le> tm_sec t \<and> tm_sec t \<le> 59
      then Inr (((((days_before_year (tm_year t) + days_before_month (tm_year t) (tm_mon t)
                     + tm_mday t - 1) * 24 + tm_hour t) * 60 + tm_min t) * 60 + tm_sec t)
                  * 1000000)
      else Inl ValueError)"

definition timedelta_days :: "int \<Rightarrow> int" where
  "timedelta_days d = d * 86400 * 1000000"

text \<open>
  \<open>datetime.now()\<close> reads the local clock: a naive \<open>datetime\<close>, the instant in UTC moved
  by the offset of the local zone.  The parsed time of a feed entry is in UTC, so the
  age of an entry at an instant is the difference of the two in UTC.
\<close>

definition local_clock :: "int \<Rightarrow> int \<Rightarrow> int" where
  "local_clock utc_instant utc_offset = utc_instant + utc_offset"

definition age_at :: "int \<Rightarrow> int \<Rightarrow> int" where
  "age_at utc_instant published = utc_instant - published"

section \<open>Data model\<close>

text \<open>
  A raw feed entry.  Every field may be missing: \<open>entry.get(key, default)\<close> reads it.
  \<open>e_source\<close> is the entry's \<open>source\<close> dictionary, reduced to its \<open>title\<close>.
\<close>

record entry =
  e_title :: "string option"
  e_summary :: "string option"
  e_link :: "string option"
  e_published :: "string option"
  e_published_parsed :: "struct_time option"
  e_source :: "string option option"

definition get_or :: "'a option \<Rightarrow> 'a \<Rightarrow> 'a" where
  "get_or v d = (case v of None \<Rightarrow> d | Some x \<Rightarrow> x)"

text \<open>
  A Finding is the dictionary both sources build, always with the same seven keys.
  The value under \<open>individual\<close> is a string or Python's \<open>None\<close>.
\<close>

record finding =
  source :: string
  company :: string
  title :: string
  summary :: string
  url :: string
  date :: string
  individual :: "string option"

datatype pyval = Str string | NoneVal

definition finding_items :: "finding \<Rightarrow> (string \<times> pyval) list" where
  "finding_items r =
     [(''source'', Str (source r)), (''company'', Str (company r)), (''title'', Str (title r)),
      (''summary'', Str (summary r)), (''url'', Str (url r)), (''date'', Str (date r)),
      (''individual'', (case individual r of None \<Rightarrow> NoneVal | Some n \<Rightarrow> Str n))]"

text \<open>\<open>d.get(key, default)\<close>: the default stands in for a missing key only.\<close>

definition dict_get :: "(string \<times> pyval) list \<Rightarrow> string \<Rightarrow> pyval \<Rightarrow> pyval" where
  "dict_get d k dflt = (case map_of d k of None \<Rightarrow> dflt | Some v \<Rightarrow> v)"

text \<open>Truth value of a Python value, and its text in an f-string.\<close>

fun py_truthy :: "pyval \<Rightarrow> bool" where
  "py_truthy NoneVal = False"
| "py_truthy (Str s) = (s \<noteq> [])"

fun py_format :: "pyval \<Rightarrow> string" where
  "py_format NoneVal = ''None''"
| "py_format (Str s) = s"

record tear_sheet =
  ts_type :: string
  ts_individual :: "string option"
  ts_company :: string
  ts_document :: string
  ts_filename :: string

record mail =
  m_subject :: string
  m_from :: string
  m_to :: string
  m_body :: string
  m_attachments :: "(string \<times> string) list"

text \<open>
  The calls the program makes to the outside: the GET to the filings feed, a news feed
  query (by URL), a POST of a prompt to the text-generation API, and the submission of
  the mail to the relay.  A call is recorded whether or not it succeeds.
\<close>

datatype prompt = CompanyPrompt string string | IndividualPrompt "pyval" string string

datatype event = SecGet | FeedGet string | ApiPost prompt | SmtpSubmit mail

text \<open>The \<open>CFOMonitor\<close> object, with the trace of outside calls made so far.\<close>

record monitor =
  email_to :: string
  email_from :: string
  email_password :: string
  anthropic_api_key :: "string option"
  results :: "finding list"
  tear_sheets :: "tear_sheet list"
  calls :: "event list"

definition init_monitor :: "string \<Rightarrow> string \<Rightarrow> string \<Rightarrow> string option \<Rightarrow> monitor" where
  "init_monitor to frm password key =
     \<lparr>email_to = to, email_from = frm, email_password = password, anthropic_api_key = key,
      results = [], tear_sheets = [], calls = []\<rparr>"

text \<open>
  What the outside answers.  A request either raises or returns; a response carries its
  status code and, for a feed, the parsed entries.  The clock is read as one instant:
  \<open>now\<close> is the reading of \<open>datetime.now()\<close>, the local clock, and \<open>today\<close> its
  formatted date.
\<close>

record block =
  b_type :: "string option"
  b_text :: "string option"

datatype http_result = HttpError | HttpResponse nat "entry list"
datatype feed_result = FeedError | Feed "entry list"
datatype api_result = ApiError | ApiResponse nat "block list"
datatype render_result = Docx string | NoDocx | RenderError

record env =
  sec_get :: http_result
  news_feed :: "string \<Rightarrow> feed_result"
  now :: int
  today :: string
  api_post :: "prompt \<Rightarrow> api_result"
  render_docx :: "string \<Rightarrow> render_result"

section \<open>The filings source\<close>

definition cfo_keywords :: "string list" where
  "cfo_keywords = [''cfo'', ''chief financial officer'', ''financial officer'']"

text \<open>
  \<open>title.split('(')[0].strip() if '(' in title else title\<close>.  A split never returns the
  empty list, so the first branch of the case is never taken.
\<close>

definition sec_company :: "string \<Rightarrow> string" where
  "sec_company t =
     (if py_contains ''('' t
      then (case py_split ''('' t of [] \<Rightarrow> t | p # _ \<Rightarrow> py_strip p)
      else t)"

definition sec_match :: "entry \<Rightarrow> bool" where
  "sec_match e =
     (let text = py_lower (get_or (e_title e) [] @ '' '' @ get_or (e_summary e) [])
      in list_ex (\<lambda>keyword. py_contains keyword text) cfo_keywords)"

definition sec_result :: "entry \<Rightarrow> finding" where
  "sec_result e =
     (let t = get_or (e_title e) []; s = get_or (e_summary e) []; link = get_or (e_link e) []
      in \<lparr>source = ''SEC EDGAR'', company = sec_company t, title = t, summary = take 300 s,
          url = link, date = get_or (e_published e) ''N/A'',
          individual = extract_individual_name t s\<rparr>)"

text \<open>The loop over \<open>feed.entries\<close> of \<open>search_sec_filings\<close>: a kept entry is appended.\<close>

fun sec_entries :: "finding list \<Rightarrow> entry list \<Rightarrow> finding list" where
  "sec_entries rs [] = rs"
| "sec_entries rs (e # es) =
     sec_entries (if sec_match e then rs @ [sec_result e] else rs) es"

definition search_sec_filings :: "env \<Rightarrow> monitor \<Rightarrow> monitor" where
  "search_sec_filings ev st =
     (let st' = st\<lparr>calls := calls st @ [SecGet]\<rparr>
      in case sec_get ev of
           HttpError \<Rightarrow> st'
         | HttpResponse status_code es \<Rightarrow>
             if status_code = 200 then st'\<lparr>results := sec_entries (results st') es\<rparr> else st')"

section \<open>The news source\<close>

definition search_queries :: "string list" where
  "search_queries =
     [''CFO appointed'', ''CFO hired'', ''Chief Financial Officer joins'', ''CFO departure'',
      ''CFO steps down'', ''new CFO'', ''names CFO'', ''appoints Chief Financial Officer'']"

definition news_url :: "string \<Rightarrow> string" where
  "news_url query =
     ''https://news.google.com/rss/search?q='' @ py_replace_char (CHR '' '') (CHR ''+'') query
       @ ''&hl=en-US&gl=US&ceid=US:en''"

text \<open>
  The recency test on one entry: \<open>Inr True\<close> when the loop skips the entry
  (\<open>continue\<close>), \<open>Inr False\<close> when it goes on, \<open>Inl\<close> when the \<open>datetime\<close> constructor
  raises.
\<close>

definition stale :: "int \<Rightarrow> entry \<Rightarrow> py_error + bool" where
  "stale nw e =
     (case e_published_parsed e of
        None \<Rightarrow> Inr False
      | Some pub_date \<Rightarrow>
          (case datetime pub_date of
             Inl err \<Rightarrow> Inl err
           | Inr entry_date \<Rightarrow> Inr (nw - entry_date > timedelta_days 2)))"

definition news_result :: "entry \<Rightarrow> finding" where
  "news_result e =
     (let t = get_or (e_title e) []; link = get_or (e_link e) [];
          src = (case e_source e of None \<Rightarrow> ''Unknown'' | Some d \<Rightarrow> get_or d ''Unknown'')
      in \<lparr>source = ''News: '' @ src, company = extract_company t, title = t, summary = [],
          url = link, date = get_or (e_published e) ''N/A'',
          individual = extract_individual_name t []\<rparr>)"

text \<open>\<open>any(r.get('url') == link for r in self.results)\<close>.\<close>

definition url_seen :: "finding list \<Rightarrow> string \<Rightarrow> bool" where
  "url_seen rs link =
     list_ex (\<lambda>r. dict_get (finding_items r) ''url'' NoneVal = Str link) rs"

text \<open>The body of the loop over the entries of one news feed.\<close>

definition news_entry :: "int \<Rightarrow> finding list \<Rightarrow> entry \<Rightarrow> py_error + finding list" where
  "news_entry nw rs e =
     (case stale nw e of
        Inl err \<Rightarrow> Inl err
      | Inr True \<Rightarrow> Inr rs
      | Inr False \<Rightarrow>
          if \<not> url_seen rs (get_or (e_link e) []) then Inr (rs @ [news_result e]) else Inr rs)"

text \<open>
  The loop itself.  It runs inside the \<open>try\<close> of its query: an exception ends the loop
  and keeps what was appended before.
\<close>

fun news_entries :: "int \<Rightarrow> finding list \<Rightarrow> entry list \<Rightarrow> finding list" where
  "news_entries nw rs [] = rs"
| "news_entries nw rs (e # es) =
     (case news_entry nw rs e of
        Inl err \<Rightarrow> rs
      | Inr rs' \<Rightarrow> news_entries nw rs' es)"

definition news_query :: "env \<Rightarrow> string \<Rightarrow> monitor \<Rightarrow> monitor" where
  "news_query ev query st =
     (let st' = st\<lparr>calls := calls st @ [FeedGet (news_url query)]\<rparr>
      in case news_feed ev (news_url query) of
           FeedError \<Rightarrow> st'
         | Feed es \<Rightarrow> st'\<lparr>results := news_entries (now ev) (results st') (take 5 es)\<rparr>)"

definition search_news :: "env \<Rightarrow> monitor \<Rightarrow> monitor" where
  "search_news ev st = fold (news_query ev) search_queries st"

section \<open>Tear sheets\<close>

text \<open>
  What \<open>_generate_company_tear_sheet\<close> and \<open>_generate_individual_tear_sheet\<close> return for
  an answer of the API: the text of the first content block, or \<open>None\<close>.  The prompt is
  a fixed template; it is kept as its parameters.
\<close>

definition api_text :: "api_result \<Rightarrow> string option" where
  "api_text a =
     (case a of
        ApiError \<Rightarrow> None
      | ApiResponse status_code content \<Rightarrow>
          if status_code = 200
          then (case content of
                  [] \<Rightarrow> None
                | b # _ \<Rightarrow> if b_type b = Some ''text'' then Some (get_or (b_text b) []) else None)
          else None)"

definition generate_company_tear_sheet :: "env \<Rightarrow> finding \<Rightarrow> monitor \<Rightarrow> string option \<times> monitor" where
  "generate_company_tear_sheet ev r st =
     (let p = CompanyPrompt (company r) (today ev)
      in (api_text (api_post ev p), st\<lparr>calls := calls st @ [ApiPost p]\<rparr>))"

definition generate_individual_tear_sheet :: "env \<Rightarrow> finding \<Rightarrow> monitor \<Rightarrow> string option \<times> monitor" where
  "generate_individual_tear_sheet ev r st =
     (let p = IndividualPrompt (dict_get (finding_items r) ''individual'' NoneVal) (company r)
                (today ev)
      in (api_text (api_post ev p), st\<lparr>calls := calls st @ [ApiPost p]\<rparr>))"

text \<open>The body of the loop of \<open>generate_tear_sheets\<close>, for one Finding.\<close>

definition tear_sheets_for :: "env \<Rightarrow> finding \<Rightarrow> monitor \<Rightarrow> monitor" where
  "tear_sheets_for ev r st =
     (let (company_doc, st1) = generate_company_tear_sheet ev r st;
          st2 = (if get_or company_doc [] \<noteq> []
                 then st1\<lparr>tear_sheets := tear_sheets st1 @
                        [\<lparr>ts_type = ''company'', ts_individual = None, ts_company = company r,
                          ts_document = get_or company_doc [],
                          ts_filename = sanitize_filename (company r) @ ''_Company_TearSheet.docx''\<rparr>]\<rparr>
                 else st1)
      in case dict_get (finding_items r) ''individual'' NoneVal of
           NoneVal \<Rightarrow> st2
         | Str n \<Rightarrow>
             if n = [] then st2
             else (let (individual_doc, st3) = generate_individual_tear_sheet ev r st2
                   in if get_or individual_doc [] \<noteq> []
                      then st3\<lparr>tear_sheets := tear_sheets st3 @
                             [\<lparr>ts_type = ''individual'', ts_individual = Some n,
                               ts_company = company r, ts_document = get_or individual_doc [],
                               ts_filename = sanitize_filename n @ ''_Individual_TearSheet.docx''\<rparr>]\<rparr>
                      else st3))"

definition generate_tear_sheets :: "env \<Rightarrow> monitor \<Rightarrow> monitor" where
  "generate_tear_sheets ev st =
     (if get_or (anthropic_api_key st) [] = [] then st
      else fold (tear_sheets_for ev) (results st) st)"

section \<open>The report\<close>

definition digit_char :: "nat \<Rightarrow> char" where
  "digit_char d = char_of (48 + d)"

function show_nat :: "nat \<Rightarrow> string" where
  "show_nat n = (if n < 10 then [digit_char n] else show_nat (n div 10) @ [digit_char (n mod 10)])"
  by pat_completeness auto
termination
  by (relation "measure (\<lambda>n. n)") auto

declare show_nat.simps [simp del]

definition email_head :: "string \<Rightarrow> nat \<Rightarrow> nat \<Rightarrow> nat \<Rightarrow> nat \<Rightarrow> nat \<Rightarrow> string" where
  \<open>email_head date_text n_results num_companies num_sec num_news n_tear_sheets =
     concat
      [''\<newline>'',
       ''        <html>\<newline>'',
       ''        <head>\<newline>'',
       ''            <style>\<newline>'',
       ''                body { font-family: Arial, sans-serif; line-height: 1.6; color: #333; }\<newline>'',
       ''                .summary { background-color: #ecf0f1; padding: 20px; margin: 20px 0; border-radius: 5px; }\<newline>'',
       ''                .highlight { color: #2c3e50; font-weight: bold; }\<newline>'',
       ''                ul { margin: 10px 0; }\<newline>'',
       ''                li { margin: 5px 0; }\<newline>'',
       ''            </style>\<newline>'',
       ''        </head>\<newline>'',
       ''        <body>\<newline>'',
       ''            <div class="summary">\<newline>'',
       ''                <h2>CFO Changes Summary - '' @ date_text @ ''</h2>\<newline>'',
       ''                <p>Our automated monitoring system has identified <span class="highlight">'' @ show_nat n_results @ '' CFO-related changes</span> across <span class="highlight">'' @ show_nat num_companies @ '' companies</span> in the past 24 hours. We found '' @ show_nat num_sec @ '' official SEC filings and '' @ show_nat num_news @ '' news articles reporting these executive movements. Detailed company and individual tear sheets are attached as Word documents for your review and analysis. Please see the attachments for comprehensive research on each identified change.</p>\<newline>'',
       ''                \<newline>'',
       ''                <h3>Quick Stats:</h3>\<newline>'',
       ''                <ul>\<newline>'',
       ''                    <li><strong>Total Findings:</strong> '' @ show_nat n_results @ ''</li>\<newline>'',
       ''                    <li><strong>Companies Affected:</strong> '' @ show_nat num_companies @ ''</li>\<newline>'',
       ''                    <li><strong>SEC Filings:</strong> '' @ show_nat num_sec @ ''</li>\<newline>'',
       ''                    <li><strong>News Articles:</strong> '' @ show_nat num_news @ ''</li>\<newline>'',
       ''                    <li><strong>Tear Sheets Generated:</strong> '' @ show_nat n_tear_sheets @ ''</li>\<newline>'',
       ''                </ul>\<newline>'',
       ''                \<newline>'',
       ''                <h3>Identified Changes:</h3>\<newline>'',
       ''                <ul>\<newline>'',
       ''        '']\<close>

definition email_tail :: "string" where
  \<open>email_tail =
     concat
      [''\<newline>'',
       ''                </ul>\<newline>'',
       ''            </div>\<newline>'',
       ''        </body>\<newline>'',
       ''        </html>\<newline>'',
       ''        '']\<close>


text \<open>
  The list line of one Finding: \<open>result.get('individual', 'Individual name not
  identified')\<close>, then the f-string.
\<close>

definition finding_line :: "finding \<Rightarrow> string" where
  "finding_line r =
     (let ind = dict_get (finding_items r) ''individual'' (Str ''Individual name not identified'')
      in ''<li><strong>'' @ company r @ ''</strong> - '' @ py_format ind @ ''</li>'')"

definition create_email_body :: "env \<Rightarrow> monitor \<Rightarrow> string" where
  "create_email_body ev st =
     (let num_companies = length (remdups (map company (results st)));
          num_sec = length (filter (\<lambda>r. source r = ''SEC EDGAR'') (results st));
          num_news = length (filter (\<lambda>r. startswith (source r) ''News'') (results st))
      in email_head (today ev) (length (results st)) num_companies num_sec num_news
           (length (tear_sheets st))
         @ concat (map finding_line (results st))
         @ email_tail)"

text \<open>
  One attachment: its file name and payload, or nothing when building it raises.
  Without the document library the raw text is attached.
\<close>

definition attachment :: "env \<Rightarrow> tear_sheet \<Rightarrow> (string \<times> string) option" where
  "attachment ev ts =
     (case render_docx ev (ts_document ts) of
        Docx bytes \<Rightarrow> Some (ts_filename ts, bytes)
      | NoDocx \<Rightarrow> Some (ts_filename ts, ts_document ts)
      | RenderError \<Rightarrow> None)"

definition send_email :: "env \<Rightarrow> monitor \<Rightarrow> monitor" where
  "send_email ev st =
     (if results st = [] then st
      else st\<lparr>calls := calls st @
             [SmtpSubmit
               \<lparr>m_subject = ''CFO Changes Alert - '' @ today ev @ '' (''
                    @ show_nat (length (results st)) @ '' findings)'',
                m_from = email_from st, m_to = email_to st,
                m_body = create_email_body ev st,
                m_attachments = List.map_filter (attachment ev) (tear_sheets st)\<rparr>]\<rparr>)"

section \<open>The run\<close>

definition run :: "env \<Rightarrow> monitor \<Rightarrow> monitor" where
  "run ev st =
     (let st1 = search_sec_filings ev st;
          st2 = search_news ev st1;
          st3 = (if results st2 \<noteq> [] then generate_tear_sheets ev st2 else st2)
      in send_email ev st3)"

section \<open>Reading the trace\<close>

fun is_smtp :: "event \<Rightarrow> bool" where
  "is_smtp (SmtpSubmit m) = True"
| "is_smtp _ = False"

fun is_api :: "event \<Rightarrow> bool" where
  "is_api (ApiPost p) = True"
| "is_api _ = False"

section \<open>Example inputs\<close>

definition filing_a :: entry where
  "filing_a = \<lparr>e_title = Some ''8-K - Acme Corp (0001234) (Filer)'',
      e_summary = Some ''Item 5.02 Departure of Chief Financial Officer'',
      e_link = Some ''https://www.sec.gov/filing/a'',
      e_published = Some ''2026-11-03T16:05:00-05:00'',
      e_published_parsed = None, e_source = None\<rparr>"


definition article_x :: entry where
  "article_x = \<lparr>e_title = Some ''XYZ Files Report'', e_summary = None,
      e_link = Some ''https://news.example/x'', e_published = None,
      e_published_parsed = None, e_source = Some (Some ''Example Wire'')\<rparr>"

definition article_old :: entry where
  "article_old = \<lparr>e_title = Some ''Acme appoints Jane Smith as CFO'', e_summary = None,
      e_link = Some ''https://news.example/old'',
      e_published = Some ''Sun, 01 Nov 2026 23:59:59 GMT'',
      e_published_parsed =
        Some \<lparr>tm_year = 2026, tm_mon = 11, tm_mday = 1, tm_hour = 23, tm_min = 59, tm_sec = 59\<rparr>,
      e_source = None\<rparr>"

definition article_two_days :: entry where
  "article_two_days = \<lparr>e_title = Some ''Acme appoints Jane Smith as CFO'', e_summary = None,
      e_link = Some ''https://news.example/two'',
      e_published = Some ''Mon, 02 Nov 2026 00:00:00 GMT'',
      e_published_parsed =
        Some \<lparr>tm_year = 2026, tm_mon = 11, tm_mday = 2, tm_hour = 0, tm_min = 0, tm_sec = 0\<rparr>,
      e_source = None\<rparr>"

definition article_recent :: entry where
  "article_recent = \<lparr>e_title = Some ''Acme appoints Jane Smith as CFO'', e_summary = None,
      e_link = Some ''https://news.example/recent'',
      e_published = Some ''Mon, 02 Nov 2026 04:00:00 GMT'',
      e_published_parsed =
        Some \<lparr>tm_year = 2026, tm_mon = 11, tm_mday = 2, tm_hour = 4, tm_min = 0, tm_sec = 0\<rparr>,
      e_source = None\<rparr>"

definition article_leap_second :: entry where
  "article_leap_second = \<lparr>e_title = Some ''Acme appoints Jane Smith as CFO'',
      e_summary = None, e_link = Some ''https://news.example/leap'',
      e_published = Some ''Sat, 31 Dec 2016 23:59:60 GMT'',
      e_published_parsed =
        Some \<lparr>tm_year = 2016, tm_mon = 12, tm_mday = 31, tm_hour = 23, tm_min = 59,
              tm_sec = 60\<rparr>,
      e_source = None\<rparr>"

text \<open>4 November 2026, 00:00:00, as a \<open>datetime\<close>.\<close>

definition scan_time :: int where
  "scan_time = 63929347200000000"

text \<open>
  An outside in which the filings request answers \<open>sec\<close>, every news query returns the
  entries \<open>news\<close>, the API fails and the document library is missing.
\<close>

definition example_env :: "http_result \<Rightarrow> entry list \<Rightarrow> env" where
  "example_env sec news =
     \<lparr>sec_get = sec, news_feed = (\<lambda>u. Feed news), now = scan_time,
      today = ''November 04, 2026'', api_post = (\<lambda>p. ApiError),
      render_docx = (\<lambda>d. NoDocx)\<rparr>"

definition example_monitor :: monitor where
  "example_monitor =
     init_monitor ''to@example.com'' ''from@example.com'' ''app-password'' None"

section \<open>Facts about strings\<close>

lemma word_not_space: "is_word c \<Longrightarrow> \<not> is_space c"
  unfolding is_word_def is_space_def Let_def by presburger

lemma hyphen_not_space: "\<not> is_space (CHR ''-'')"
  by (simp add: is_space_def)

lemma blank_is_space: "is_space (CHR '' '')"
  by (simp add: is_space_def)

lemma underscore_is_word: "is_word (CHR ''_'')"
  by (simp add: is_word_def)

lemma set_py_strip: "set (py_strip s) \<subseteq> set s"
proof
  fix c assume "c \<in> set (py_strip s)"
  then have "c \<in> set (dropWhile is_space (rev (dropWhile is_space s)))"
    by (simp add: py_strip_def)
  then have "c \<in> set (rev (dropWhile is_space s))" by (rule set_dropWhileD)
  then have "c \<in> set (dropWhile is_space s)" by simp
  then show "c \<in> set s" by (rule set_dropWhileD)
qed

lemma dropWhile_none: "\<forall>c\<in>set xs. \<not> P c \<Longrightarrow> dropWhile P xs = xs"
  by (cases xs) auto

lemma py_strip_id: "\<forall>c\<in>set s. \<not> is_space c \<Longrightarrow> py_strip s = s"
  by (simp add: py_strip_def dropWhile_none)

lemma py_split_acc_nonempty: "py_split_acc sep acc s \<noteq> []"
  by (induction sep acc s rule: py_split_acc.induct) auto






section \<open>Facts about the extraction loops\<close>






section \<open>Facts about the filename sanitizer\<close>

lemma sanitize_source:
  assumes "c \<in> set (sanitize_filename s)"
  shows "\<exists>d\<in>set s. (is_word d \<or> is_space d \<or> d = CHR ''-'')
           \<and> c = (if d = CHR '' '' then CHR ''_'' else d)"
proof -
  let ?f = "filter (\<lambda>c. is_word c \<or> is_space c \<or> c = CHR ''-'') s"
  from assms have "c \<in> set (py_replace_char (CHR '' '') (CHR ''_'') (py_strip ?f))"
    unfolding sanitize_filename_def by (rule in_set_takeD)
  then obtain d where d: "d \<in> set (py_strip ?f)"
    and c: "c = (if d = CHR '' '' then CHR ''_'' else d)"
    unfolding py_replace_char_def by auto
  from d set_py_strip have "d \<in> set ?f" by blast
  then show ?thesis using c by auto
qed

lemma sanitize_chars:
  assumes "c \<in> set (sanitize_filename s)"
  shows "is_word c \<or> c = CHR ''-'' \<or> (is_space c \<and> c \<noteq> CHR '' '')"
proof -
  from sanitize_source[OF assms] obtain d where
    k: "is_word d \<or> is_space d \<or> d = CHR ''-''"
    and c: "c = (if d = CHR '' '' then CHR ''_'' else d)"
    by blast
  show ?thesis
  proof (cases "d = CHR '' ''")
    case True then show ?thesis using c underscore_is_word by simp
  next
    case False then show ?thesis using c k by auto
  qed
qed

lemma sanitize_chars_plain:
  assumes a: "\<forall>c\<in>set s. is_space c \<longrightarrow> c = CHR '' ''"
    and "c \<in> set (sanitize_filename s)"
  shows "is_word c \<or> c = CHR ''-''"
proof -
  from sanitize_source[OF assms(2)] obtain d where ds: "d \<in> set s"
    and k: "is_word d \<or> is_space d \<or> d = CHR ''-''"
    and c: "c = (if d = CHR '' '' then CHR ''_'' else d)"
    by blast
  show ?thesis
  proof (cases "d = CHR '' ''")
    case True then show ?thesis using c underscore_is_word by simp
  next
    case False
    with a ds have "\<not> is_space d" by blast
    then show ?thesis using c k False by auto
  qed
qed

lemma sanitize_fixed:
  assumes w: "\<forall>c\<in>set t. is_word c \<or> c = CHR ''-''" and l: "length t \<le> 50"
  shows "sanitize_filename t = t"
proof -
  have f: "filter (\<lambda>c. is_word c \<or> is_space c \<or> c = CHR ''-'') t = t"
    using w by (intro filter_True) blast
  have ns: "\<forall>c\<in>set t. \<not> is_space c"
    using w word_not_space hyphen_not_space by blast
  have nsp: "\<forall>c\<in>set t. c \<noteq> CHR '' ''"
    using ns blank_is_space by blast
  have r: "py_replace_char (CHR '' '') (CHR ''_'') t = t"
    unfolding py_replace_char_def using nsp by (intro map_idI) simp
  show ?thesis
    unfolding sanitize_filename_def using f py_strip_id[OF ns] r l by simp
qed

lemma sanitize_length: "length (sanitize_filename s) \<le> 50"
  by (simp add: sanitize_filename_def)

section \<open>Facts about the sources\<close>

lemma dict_get_url: "dict_get (finding_items r) ''url'' d = Str (url r)"
  by (simp add: dict_get_def finding_items_def)

lemma dict_get_individual:
  "dict_get (finding_items r) ''individual'' d
     = (case individual r of None \<Rightarrow> NoneVal | Some n \<Rightarrow> Str n)"
  by (simp add: dict_get_def finding_items_def)

lemma url_seen_iff: "url_seen rs link \<longleftrightarrow> link \<in> set (map url rs)"
  by (auto simp: url_seen_def dict_get_url list_ex_iff)




lemma news_entry_cases:
  "news_entry nw rs e = Inr rs' \<Longrightarrow>
     rs' = rs \<or> (rs' = rs @ [news_result e] \<and> get_or (e_link e) [] \<notin> set (map url rs))"
  by (auto simp: news_entry_def url_seen_iff split: sum.splits bool.splits if_splits)


lemma news_entries_extends: "\<exists>new. news_entries nw rs es = rs @ new"
proof (induction es arbitrary: rs)
  case Nil then show ?case by simp
next
  case (Cons e es)
  show ?case
  proof (cases "news_entry nw rs e")
    case (Inl err) then show ?thesis by simp
  next
    case (Inr rs')
    from Cons.IH[of rs'] obtain new where "news_entries nw rs' es = rs' @ new" by blast
    with Inr news_entry_cases[OF Inr] show ?thesis by auto
  qed
qed

lemma stale_true_iff:
  "stale nw e = Inr True \<longleftrightarrow>
     (\<exists>pub d. e_published_parsed e = Some pub \<and> datetime pub = Inr d
         \<and> nw - d > 2 * 86400 * 1000000)"
  by (auto simp: stale_def timedelta_days_def split: option.splits sum.splits)

lemma stale_false_iff:
  "stale nw e = Inr False \<longleftrightarrow>
     (e_published_parsed e = None
      \<or> (\<exists>pub d. e_published_parsed e = Some pub \<and> datetime pub = Inr d
            \<and> nw - d \<le> 2 * 86400 * 1000000))"
  by (auto simp: stale_def timedelta_days_def split: option.splits sum.splits)

lemma stale_raises_iff:
  "stale nw e = Inl ValueError \<longleftrightarrow>
     (\<exists>pub. e_published_parsed e = Some pub \<and> datetime pub = Inl ValueError)"
  by (auto simp: stale_def split: option.splits sum.splits)

lemma stale_true_step:
  "stale nw e = Inr True \<Longrightarrow>
     news_entry nw rs e = Inr rs \<and> news_entries nw rs (e # es) = news_entries nw rs es"
  by (simp add: news_entry_def)

lemma stale_false_step:
  assumes "stale nw e = Inr False"
  shows "news_entry nw rs e =
           Inr (if get_or (e_link e) [] \<in> set (map url rs) then rs else rs @ [news_result e])"
    and "news_entries nw rs (e # es) =
           news_entries nw
             (if get_or (e_link e) [] \<in> set (map url rs) then rs else rs @ [news_result e]) es"
    and "get_or (e_link e) [] \<in> set (map url (news_entries nw rs (e # es)))"
proof -
  show a: "news_entry nw rs e =
           Inr (if get_or (e_link e) [] \<in> set (map url rs) then rs else rs @ [news_result e])"
    using assms by (simp add: news_entry_def url_seen_iff)
  then show b: "news_entries nw rs (e # es) =
           news_entries nw
             (if get_or (e_link e) [] \<in> set (map url rs) then rs else rs @ [news_result e]) es"
    by simp
  let ?rs' = "if get_or (e_link e) [] \<in> set (map url rs) then rs else rs @ [news_result e]"
  have "get_or (e_link e) [] \<in> set (map url ?rs')"
    by (auto simp: news_result_def Let_def)
  moreover obtain new where "news_entries nw ?rs' es = ?rs' @ new"
    using news_entries_extends by blast
  ultimately show "get_or (e_link e) [] \<in> set (map url (news_entries nw rs (e # es)))"
    unfolding b by auto
qed

text \<open>
  The recency test, case by case, and what the loop does with the entry.  The last part
  reads the test against the age of the entry: the clock reading is local, the parsed
  time is UTC, and the two agree where the offset of the local zone is zero.
\<close>

lemma recency_filter_spec:
  "(stale nw e = Inr True \<longleftrightarrow>
      (\<exists>pub d. e_published_parsed e = Some pub \<and> datetime pub = Inr d
          \<and> nw - d > 2 * 86400 * 1000000))
   \<and> (stale nw e = Inr False \<longleftrightarrow>
      (e_published_parsed e = None
       \<or> (\<exists>pub d. e_published_parsed e = Some pub \<and> datetime pub = Inr d
             \<and> nw - d \<le> 2 * 86400 * 1000000)))
   \<and> (stale nw e = Inl ValueError \<longleftrightarrow>
      (\<exists>pub. e_published_parsed e = Some pub \<and> datetime pub = Inl ValueError))
   \<and> (stale nw e = Inr True \<longrightarrow>
        news_entry nw rs e = Inr rs
        \<and> news_entries nw rs (e # es) = news_entries nw rs es)
   \<and> (stale nw e = Inr False \<longrightarrow>
        news_entry nw rs e =
          Inr (if get_or (e_link e) [] \<in> set (map url rs) then rs
               else rs @ [news_result e])
        \<and> news_entries nw rs (e # es) =
            news_entries nw
              (if get_or (e_link e) [] \<in> set (map url rs) then rs
               else rs @ [news_result e]) es
        \<and> get_or (e_link e) [] \<in> set (map url (news_entries nw rs (e # es))))
   \<and> (e_published_parsed e = Some pub \<and> datetime pub = Inr d \<longrightarrow>
        (stale (local_clock u off) e = Inr True \<longleftrightarrow>
           age_at u d + off > 2 * 86400 * 1000000)
        \<and> (stale (local_clock u 0) e = Inr True \<longleftrightarrow> age_at u d > 2 * 86400 * 1000000))"
proof (intro conjI impI)
  show "stale nw e = Inr True \<longleftrightarrow>
      (\<exists>pub d. e_published_parsed e = Some pub \<and> datetime pub = Inr d
          \<and> nw - d > 2 * 86400 * 1000000)"
    by (rule stale_true_iff)
  show "stale nw e = Inr False \<longleftrightarrow>
      (e_published_parsed e = None
       \<or> (\<exists>pub d. e_published_parsed e = Some pub \<and> datetime pub = Inr d
             \<and> nw - d \<le> 2 * 86400 * 1000000))"
    by (rule stale_false_iff)
  show "stale nw e = Inl ValueError \<longleftrightarrow>
      (\<exists>pub. e_published_parsed e = Some pub \<and> datetime pub = Inl ValueError)"
    by (rule stale_raises_iff)
next
  assume t: "stale nw e = Inr True"
  from stale_true_step[OF t] show "news_entry nw rs e = Inr rs"
    and "news_entries nw rs (e # es) = news_entries nw rs es" by blast+
next
  assume f: "stale nw e = Inr False"
  show "news_entry nw rs e =
          Inr (if get_or (e_link e) [] \<in> set (map url rs) then rs
               else rs @ [news_result e])"
    using f by (rule stale_false_step(1))
  show "news_entries nw rs (e # es) =
            news_entries nw
              (if get_or (e_link e) [] \<in> set (map url rs) then rs
               else rs @ [news_result e]) es"
    using f by (rule stale_false_step(2))
  show "get_or (e_link e) [] \<in> set (map url (news_entries nw rs (e # es)))"
    using f by (rule stale_false_step(3))
next
  assume p: "e_published_parsed e = Some pub \<and> datetime pub = Inr d"
  then show "stale (local_clock u off) e = Inr True \<longleftrightarrow>
           age_at u d + off > 2 * 86400 * 1000000"
    by (simp add: stale_def timedelta_days_def local_clock_def age_at_def) arith
  from p show "stale (local_clock u 0) e = Inr True \<longleftrightarrow> age_at u d > 2 * 86400 * 1000000"
    by (simp add: stale_def timedelta_days_def local_clock_def age_at_def)
qed

text \<open>The news loop never adds a url that is already collected.\<close>

lemma news_entries_distinct:
  "distinct (map url rs) \<Longrightarrow> distinct (map url (news_entries nw rs es))"
proof (induction es arbitrary: rs)
  case Nil then show ?case by simp
next
  case (Cons e es)
  show ?case
  proof (cases "news_entry nw rs e")
    case (Inl err) with Cons.prems show ?thesis by simp
  next
    case (Inr rs')
    have "distinct (map url rs')"
      using news_entry_cases[OF Inr] Cons.prems by (auto simp: news_result_def Let_def)
    from Cons.IH[OF this] Inr show ?thesis by simp
  qed
qed

lemma search_sec_calls: "calls (search_sec_filings ev st) = calls st @ [SecGet]"
  by (simp add: search_sec_filings_def Let_def split: http_result.splits)

lemma search_sec_tear_sheets: "tear_sheets (search_sec_filings ev st) = tear_sheets st"
  by (simp add: search_sec_filings_def Let_def split: http_result.splits)

lemma search_sec_key: "anthropic_api_key (search_sec_filings ev st) = anthropic_api_key st"
  by (simp add: search_sec_filings_def Let_def split: http_result.splits)



lemma news_query_calls: "calls (news_query ev q st) = calls st @ [FeedGet (news_url q)]"
  by (simp add: news_query_def Let_def split: feed_result.splits)

lemma news_query_tear_sheets: "tear_sheets (news_query ev q st) = tear_sheets st"
  by (simp add: news_query_def Let_def split: feed_result.splits)

lemma news_query_key: "anthropic_api_key (news_query ev q st) = anthropic_api_key st"
  by (simp add: news_query_def Let_def split: feed_result.splits)


lemma news_query_distinct:
  "distinct (map url (results st)) \<Longrightarrow> distinct (map url (results (news_query ev q st)))"
  by (simp add: news_query_def Let_def news_entries_distinct split: feed_result.splits)

lemma fold_news_calls:
  "calls (fold (news_query ev) qs st) = calls st @ map (\<lambda>q. FeedGet (news_url q)) qs"
  by (induction qs arbitrary: st) (simp_all add: news_query_calls)

lemma fold_news_tear_sheets: "tear_sheets (fold (news_query ev) qs st) = tear_sheets st"
  by (induction qs arbitrary: st) (simp_all add: news_query_tear_sheets)

lemma fold_news_key: "anthropic_api_key (fold (news_query ev) qs st) = anthropic_api_key st"
  by (induction qs arbitrary: st) (simp_all add: news_query_key)


lemma fold_news_distinct:
  "distinct (map url (results st)) \<Longrightarrow>
     distinct (map url (results (fold (news_query ev) qs st)))"
  by (induction qs arbitrary: st) (simp_all add: news_query_distinct)

text \<open>
  The check of the news source keeps the collected urls distinct when they are distinct
  before it runs.
\<close>

lemma search_news_distinct:
  "distinct (map url (results st)) \<Longrightarrow> distinct (map url (results (search_news ev st)))"
  unfolding search_news_def by (rule fold_news_distinct)

lemma search_news_calls:
  "calls (search_news ev st) = calls st @ map (\<lambda>q. FeedGet (news_url q)) search_queries"
  by (simp add: search_news_def fold_news_calls)

lemma search_news_tear_sheets: "tear_sheets (search_news ev st) = tear_sheets st"
  by (simp add: search_news_def fold_news_tear_sheets)

lemma search_news_key: "anthropic_api_key (search_news ev st) = anthropic_api_key st"
  by (simp add: search_news_def fold_news_key)


section \<open>Facts about the run\<close>

lemma tear_sheets_for_results: "results (tear_sheets_for ev r st) = results st"
  by (simp add: tear_sheets_for_def generate_company_tear_sheet_def
      generate_individual_tear_sheet_def Let_def split: pyval.splits prod.splits)

lemma fold_tear_sheets_results: "results (fold (tear_sheets_for ev) rs st) = results st"
  by (induction rs arbitrary: st) (simp_all add: tear_sheets_for_results)

lemma generate_results: "results (generate_tear_sheets ev st) = results st"
  by (simp add: generate_tear_sheets_def fold_tear_sheets_results)

lemma send_email_results: "results (send_email ev st) = results st"
  by (simp add: send_email_def)

lemma send_email_tear_sheets: "tear_sheets (send_email ev st) = tear_sheets st"
  by (simp add: send_email_def)

lemma send_email_submits:
  "results st \<noteq> [] \<Longrightarrow> filter is_smtp (calls (send_email ev st)) \<noteq> []"
  by (simp add: send_email_def)

lemma last_call_send_email:
  "results st \<noteq> [] \<Longrightarrow>
     \<exists>m. last (calls (send_email ev st)) = SmtpSubmit m \<and> m_body m = create_email_body ev st"
  by (simp add: send_email_def)

lemma run_results: "results (run ev st) = results (search_news ev (search_sec_filings ev st))"
  by (simp add: run_def Let_def send_email_results generate_results)

lemma run_without_key:
  "get_or (anthropic_api_key st) [] = [] \<Longrightarrow>
     run ev st = send_email ev (search_news ev (search_sec_filings ev st))"
  by (simp add: run_def Let_def generate_tear_sheets_def search_news_key search_sec_key)

lemma filter_feed_smtp: "filter is_smtp (map (\<lambda>q. FeedGet (news_url q)) qs) = []"
  by (induction qs) simp_all

lemma filter_feed_api: "filter is_api (map (\<lambda>q. FeedGet (news_url q)) qs) = []"
  by (induction qs) simp_all

lemma searches_smtp:
  "filter is_smtp (calls (search_news ev (search_sec_filings ev st)))
     = filter is_smtp (calls st)"
  by (simp add: search_news_calls search_sec_calls filter_feed_smtp)

lemma searches_api:
  "filter is_api (calls (search_news ev (search_sec_filings ev st)))
     = filter is_api (calls st)"
  by (simp add: search_news_calls search_sec_calls filter_feed_api)

section \<open>Deduplication by url\<close>

text \<open>
  C1.  The collected list is meant to hold one Finding per url, the first seen,
  whichever source produced it.  The news source checks the url of a candidate against
  the collected list (\<open>search_news_distinct\<close> above); the filings source appends without
  that check.  A filings feed that lists the same link twice, both entries naming the
  CFO, leaves two Findings with that url in the final list of the run.
\<close>

theorem sec_duplicate_url_kept:
  "map url (results (run (example_env (HttpResponse 200 [filing_a, filing_a]) [])
                      example_monitor))
     = [''https://www.sec.gov/filing/a'', ''https://www.sec.gov/filing/a'']"
  by (simp only: run_results) code_simp

section \<open>Name extraction\<close>

text \<open>
  C2.  On the title "Acme names Chief Financial Officer" with an empty summary the
  first pattern captures the three words "Chief Financial Officer": the name shape is
  greedy, and the blocklist holds only the two-word fragments.  The function returns
  that job title as the individual's name; it does not return the absent value.
\<close>

theorem extract_individual_name_job_title:
  "extract_individual_name ''Acme names Chief Financial Officer'' ''''
     = Some ''Chief Financial Officer''"
  by code_simp




section \<open>Company extraction\<close>




section \<open>The filename sanitizer\<close>

text \<open>
  C4.  The sanitizer is meant to be idempotent and to leave only word characters,
  underscores and hyphens, in at most 50 characters.  The length bound holds for every
  input.  The pattern keeps every white-space character and only the space is then
  replaced: a tab between two letters stays in the result, and an input of 49 letters,
  a tab and a letter is cut after the tab, which a second pass strips.
\<close>

theorem sanitize_keeps_white_space:
  "length (sanitize_filename s) \<le> 50
   \<and> sanitize_filename [CHR ''a'', CHR 0x09, CHR ''b''] = [CHR ''a'', CHR 0x09, CHR ''b'']
   \<and> \<not> is_word (CHR 0x09) \<and> CHR 0x09 \<noteq> CHR ''-'' \<and> CHR 0x09 \<noteq> CHR ''_''
   \<and> sanitize_filename (replicate 49 (CHR ''a'') @ [CHR 0x09, CHR ''b''])
       = replicate 49 (CHR ''a'') @ [CHR 0x09]
   \<and> sanitize_filename (replicate 49 (CHR ''a'') @ [CHR 0x09])
       = replicate 49 (CHR ''a'')
   \<and> sanitize_filename (sanitize_filename (replicate 49 (CHR ''a'') @ [CHR 0x09, CHR ''b'']))
       \<noteq> sanitize_filename (replicate 49 (CHR ''a'') @ [CHR 0x09, CHR ''b''])"
proof (intro conjI)
  show "length (sanitize_filename s) \<le> 50" by (rule sanitize_length)
qed code_simp+

section \<open>The recency filter\<close>

text \<open>
  C7.  The news loop is meant to drop an entry exactly when its parsed published time
  is more than two days old at the scan, and to keep an entry without one.  It
  compares the reading of the local clock with the parsed time, which is in UTC
  (\<open>recency_filter_spec\<close> above).  In a zone five hours ahead of UTC, at the instant
  4 November 2026 00:00:00 UTC, an entry published on 2 November at 04:00:00 UTC is
  44 hours old, less than two days, and the loop drops it.
\<close>

theorem recency_filter_drops_fresh_entry:
  "e_published_parsed article_recent =
     Some \<lparr>tm_year = 2026, tm_mon = 11, tm_mday = 2, tm_hour = 4, tm_min = 0, tm_sec = 0\<rparr>
   \<and> datetime \<lparr>tm_year = 2026, tm_mon = 11, tm_mday = 2, tm_hour = 4, tm_min = 0, tm_sec = 0\<rparr>
       = Inr 63929188800000000
   \<and> age_at scan_time 63929188800000000 = 158400 * 1000000
   \<and> age_at scan_time 63929188800000000 < 2 * 86400 * 1000000
   \<and> stale (local_clock scan_time (5 * 3600 * 1000000)) article_recent = Inr True
   \<and> news_entries (local_clock scan_time (5 * 3600 * 1000000)) [] [article_recent] = []"
  by code_simp

text \<open>
  With the clock reading 4 November 2026 00:00:00: an entry of 1 November 23:59:59 is
  skipped, one of 2 November 00:00:00 (two days exactly) and one without a parsed time
  are kept, and a parsed time with second 60 raises.
\<close>

lemma recency_examples:
  "stale scan_time article_old = Inr True
   \<and> news_entries scan_time [] [article_old] = []
   \<and> stale scan_time article_two_days = Inr False
   \<and> map url (news_entries scan_time [] [article_two_days]) = [''https://news.example/two'']
   \<and> stale scan_time article_x = Inr False
   \<and> news_entries scan_time [] [article_x] = [news_result article_x]
   \<and> stale scan_time article_leap_second = Inl ValueError"
  by code_simp

section \<open>Summaries\<close>



section \<open>Enrichment without a key\<close>

text \<open>
  C6.  Without an API key (none, or the empty string) \<open>generate_tear_sheets\<close> returns
  the monitor unchanged: no tear sheet, no call.  A whole run then adds no tear sheet
  and posts nothing to the API, and it goes on to \<open>send_email\<close> with what the two
  sources collected.
\<close>

theorem no_api_key_no_tear_sheets:
  "(get_or (anthropic_api_key st) [] = [] \<longrightarrow> generate_tear_sheets ev st = st)
   \<and> (get_or (anthropic_api_key st) [] = [] \<longrightarrow>
        tear_sheets (run ev st) = tear_sheets st
        \<and> filter is_api (calls (run ev st)) = filter is_api (calls st)
        \<and> run ev st = send_email ev (search_news ev (search_sec_filings ev st)))"
proof (intro conjI impI)
  assume "get_or (anthropic_api_key st) [] = []"
  then show "generate_tear_sheets ev st = st" by (simp add: generate_tear_sheets_def)
next
  assume k: "get_or (anthropic_api_key st) [] = []"
  let ?s2 = "search_news ev (search_sec_filings ev st)"
  show r: "run ev st = send_email ev ?s2" using k by (rule run_without_key)
  show "tear_sheets (run ev st) = tear_sheets st"
    by (simp add: r send_email_tear_sheets search_news_tear_sheets search_sec_tear_sheets)
  have "filter is_api (calls (send_email ev ?s2)) = filter is_api (calls ?s2)"
    by (simp add: send_email_def)
  then show "filter is_api (calls (run ev st)) = filter is_api (calls st)"
    by (simp only: r searches_api)
qed

text \<open>A run with one news Finding and no key: no tear sheet, no API call, one mail.\<close>

theorem no_api_key_no_tear_sheets_witness:
  "tear_sheets (run (example_env HttpError [article_x]) example_monitor) = []
   \<and> filter is_api (calls (run (example_env HttpError [article_x]) example_monitor)) = []
   \<and> filter is_smtp (calls (run (example_env HttpError [article_x]) example_monitor)) \<noteq> []"
proof -
  let ?ev = "example_env HttpError [article_x]"
  let ?st = "search_news ?ev (search_sec_filings ?ev example_monitor)"
  have k: "get_or (anthropic_api_key example_monitor) [] = []" by code_simp
  have t0: "tear_sheets example_monitor = []" by code_simp
  have c0: "filter is_api (calls example_monitor) = []" by code_simp
  have r: "results ?st \<noteq> []" by code_simp
  note t = no_api_key_no_tear_sheets[of example_monitor ?ev]
  from t k have a: "tear_sheets (run ?ev example_monitor) = tear_sheets example_monitor"
    by blast
  from t k have b: "filter is_api (calls (run ?ev example_monitor))
                      = filter is_api (calls example_monitor)"
    by blast
  from t k have c: "run ?ev example_monitor = send_email ?ev ?st" by blast
  have m: "filter is_smtp (calls (run ?ev example_monitor)) \<noteq> []"
    unfolding c using r by (rule send_email_submits)
  from a b m t0 c0 show ?thesis by simp
qed

section \<open>The mail\<close>

text \<open>
  C5.  With nothing collected \<open>send_email\<close> returns the monitor unchanged, so it submits
  no mail.  A run whose two sources collect nothing ends in the state the sources left:
  its trace holds no mail submission beyond those it started with (and no tear sheet is
  generated).  Every raise of the program is caught where it happens, so the run is a
  total function of the outside's answers.
\<close>

theorem zero_findings_no_mail:
  "(results st = [] \<longrightarrow> send_email ev st = st)
   \<and> (results (search_news ev (search_sec_filings ev st)) = [] \<longrightarrow>
        run ev st = search_news ev (search_sec_filings ev st)
        \<and> filter is_smtp (calls (run ev st)) = filter is_smtp (calls st))"
proof (intro conjI impI)
  assume "results st = []"
  then show "send_email ev st = st" by (simp add: send_email_def)
next
  assume e: "results (search_news ev (search_sec_filings ev st)) = []"
  then show r: "run ev st = search_news ev (search_sec_filings ev st)"
    by (simp add: run_def Let_def send_email_def)
  show "filter is_smtp (calls (run ev st)) = filter is_smtp (calls st)"
    by (simp only: r searches_smtp)
qed

theorem zero_findings_no_mail_witness:
  "results (search_news (example_env HttpError [])
              (search_sec_filings (example_env HttpError []) example_monitor)) = []
   \<and> filter is_smtp (calls (run (example_env HttpError []) example_monitor)) = []
   \<and> send_email (example_env HttpError []) example_monitor = example_monitor"
proof -
  let ?ev = "example_env HttpError []"
  have h: "results (search_news ?ev (search_sec_filings ?ev example_monitor)) = []"
    by code_simp
  have h0: "results example_monitor = []" by code_simp
  have c: "filter is_smtp (calls example_monitor) = []" by code_simp
  note t = zero_findings_no_mail[of example_monitor ?ev]
  from t h0 have a: "send_email ?ev example_monitor = example_monitor" by blast
  from t h have "filter is_smtp (calls (run ?ev example_monitor))
                   = filter is_smtp (calls example_monitor)"
    by blast
  with c have b: "filter is_smtp (calls (run ?ev example_monitor)) = []" by simp
  from h b a show ?thesis by blast
qed

text \<open>
  C3.  The list line of a Finding without an individual is meant to show a "not
  identified" text.  Both sources store the key \<open>individual\<close> in every Finding, with
  the value \<open>None\<close> when no name was found, so the default of \<open>get\<close> is never used and
  the f-string prints \<open>None\<close>.  The mail of a run with the one news Finding "XYZ Files
  Report" has, between the head and the tail of the body, the line that ends in "None".
\<close>

theorem absent_individual_line:
  "finding_line (r\<lparr>individual := None\<rparr>)
     = ''<li><strong>'' @ company r @ ''</strong> - None</li>''
   \<and> (case last (calls (run (example_env HttpError [article_x]) example_monitor)) of
         SmtpSubmit m \<Rightarrow>
           m_body m = email_head ''November 04, 2026'' 1 1 0 1 0
                        @ ''<li><strong>Company in article</strong> - None</li>''
                        @ email_tail
       | _ \<Rightarrow> False)"
proof
  show "finding_line (r\<lparr>individual := None\<rparr>)
          = ''<li><strong>'' @ company r @ ''</strong> - None</li>''"
    by (simp add: finding_line_def dict_get_individual)
  let ?ev = "example_env HttpError [article_x]"
  let ?st = "search_news ?ev (search_sec_filings ?ev example_monitor)"
  have k: "get_or (anthropic_api_key example_monitor) [] = []" by code_simp
  have r: "results ?st =
      [\<lparr>source = ''News: Example Wire'', company = ''Company in article'',
        title = ''XYZ Files Report'', summary = [], url = ''https://news.example/x'',
        date = ''N/A'', individual = None\<rparr>]"
    by code_simp
  have t: "tear_sheets ?st = []" by code_simp
  have d: "today ?ev = ''November 04, 2026''" by code_simp
  have b: "create_email_body ?ev ?st = email_head ''November 04, 2026'' 1 1 0 1 0
             @ ''<li><strong>Company in article</strong> - None</li>'' @ email_tail"
    by (simp add: create_email_body_def r t d finding_line_def dict_get_individual
        startswith_def)
  from r have "results ?st \<noteq> []" by simp
  from last_call_send_email[OF this, of ?ev] b run_without_key[OF k, of ?ev]
  show "(case last (calls (run ?ev example_monitor)) of
         SmtpSubmit m \<Rightarrow>
           m_body m = email_head ''November 04, 2026'' 1 1 0 1 0
                        @ ''<li><strong>Company in article</strong> - None</li>''
                        @ email_tail
       | _ \<Rightarrow> False)"
    by auto
qed

end
